theory Spec2Isabelle
  imports Complex_Main
begin

section \<open>The Gantt chart script \<^verbatim>\<open>scripts/gantt.py\<close>\<close>

text \<open>
  The script builds a plotly figure from two hardcoded tables (tasks and milestones),
  writes it to \<^verbatim>\<open>gantt_chart.png\<close> and \<^verbatim>\<open>gantt_chart.svg\<close> and prints one line.
  The embedding follows the script statement by statement. A plotly object is the bag of
  attributes the script sets on it; a dictionary lookup that Python may refuse with
  \<^verbatim>\<open>KeyError\<close> returns a sum; the figure and the outside world (files written, console)
  are passed explicitly.

  Floats: the only float arithmetic of the script is \<^verbatim>\<open>n - 0.5\<close> and \<^verbatim>\<open>n + d - 0.5\<close> on the
  integers of the task table. Half-integers of this size are exact in binary64, so the
  values are modelled by rationals; every other float is a literal handed to plotly
  unchanged and is recorded by its decimal value.
\<close>

subsection \<open>Data\<close>

type_synonym pyfloat = rat

datatype error =
    KeyError string
  | IndexError nat
  | Failure string   \<comment> \<open>any exception raised inside the charting library\<close>

text \<open>One entry of \<^verbatim>\<open>tasks_data\<close> (lines 13-20); the DataFrame \<^verbatim>\<open>df\<close> is the list of rows.\<close>

record task_rec =
  Task :: string
  Start_Week :: int
  Duration :: int
  Type :: string
  Description :: string

text \<open>One entry of \<^verbatim>\<open>milestones\<close> (lines 59-63).\<close>

record milestone_rec =
  week :: pyfloat
  task :: string
  label :: string

text \<open>A value in the \<^verbatim>\<open>x\<close> or \<^verbatim>\<open>y\<close> array of a trace.\<close>

datatype pyval = PyStr string | PyInt int | PyFloat pyfloat

datatype trace_type = Bar | Scatter

record marker_rec =
  symbol :: string
  size :: int
  color :: string
  line_color :: string
  line_width :: int

text \<open>
  A trace of the figure: the attributes the script passes to \<^verbatim>\<open>go.Bar\<close> (lines 38-48) and
  \<^verbatim>\<open>go.Scatter\<close> (lines 69-84); an attribute the call does not pass is \<open>None\<close>.
\<close>

record trace =
  trace_type :: trace_type
  trace_x :: "pyval list"
  trace_y :: "pyval list"
  trace_name :: string
  showlegend :: bool
  legendgroup :: "string option"
  orientation :: "string option"
  marker_color :: "string option"
  bar_width :: "pyfloat option"
  bar_base :: "pyfloat option"
  mode :: "string option"
  marker :: "marker_rec option"
  trace_text :: "string option"
  textposition :: "string option"
  textfont :: "(int \<times> string) option"
  cliponaxis :: "bool option"

text \<open>
  The arguments of \<^verbatim>\<open>fig.add_annotation\<close> (lines 90-100). \<^verbatim>\<open>x\<close>, \<^verbatim>\<open>y\<close> place the head of the
  arrow and \<^verbatim>\<open>ax\<close>, \<^verbatim>\<open>ay\<close> its tail. The coordinate system in which plotly reads the tail
  is chosen by \<^verbatim>\<open>axref\<close> and \<^verbatim>\<open>ayref\<close>, which the script does not pass.
\<close>

record annotation =
  ann_x :: pyfloat
  ann_y :: int
  ann_ax :: pyfloat
  ann_ay :: int
  axref :: "string option"
  ayref :: "string option"
  arrowhead :: int
  arrowsize :: int
  arrowwidth :: int
  arrowcolor :: string
  opacity :: pyfloat

text \<open>The arguments of \<^verbatim>\<open>fig.update_layout\<close> (lines 103-121).\<close>

record layout_rec =
  title :: string
  xaxis_title :: string
  xaxis_tickmode :: string
  xaxis_tickvals :: "int list"
  xaxis_ticktext :: "string list"
  xaxis_range :: "pyfloat \<times> pyfloat"
  yaxis_title :: string
  yaxis_categoryorder :: string
  yaxis_categoryarray :: "string list"
  barmode :: string
  legend_orientation :: string
  legend_yanchor :: string
  legend_y :: pyfloat
  legend_xanchor :: string
  legend_x :: pyfloat

record figure =
  data :: "trace list"
  annotations :: "annotation list"
  layout :: "layout_rec option"

subsection \<open>The hardcoded tables\<close>

definition tasks_data :: "task_rec list" where
  "tasks_data =
    [\<lparr>Task = ''Village Render'', Start_Week = 1, Duration = 1, Type = ''Frontend'',
       Description = ''Phaser.js setup''\<rparr>,
     \<lparr>Task = ''RPG Dialogue'', Start_Week = 2, Duration = 1, Type = ''Frontend'',
       Description = ''UI panel system''\<rparr>,
     \<lparr>Task = ''MCP Integration'', Start_Week = 3, Duration = 1, Type = ''Backend'',
       Description = ''Real agents''\<rparr>,
     \<lparr>Task = ''Bug Bot System'', Start_Week = 4, Duration = 1, Type = ''Backend'',
       Description = ''Probot app''\<rparr>,
     \<lparr>Task = ''Performance'', Start_Week = 5, Duration = 1, Type = ''DevOps'',
       Description = ''Optimization''\<rparr>,
     \<lparr>Task = ''Test & Launch'', Start_Week = 6, Duration = 1, Type = ''Testing'',
       Description = ''QA & deploy''\<rparr>]"

definition color_map :: "string \<rightharpoonup> string" where
  "color_map =
    map_of [(''Frontend'', ''#2E8B57''), (''Backend'', ''#1FB8CD''),
            (''DevOps'', ''#D2BA4C''), (''Testing'', ''#944454'')]"

definition milestones :: "milestone_rec list" where
  "milestones =
    [\<lparr>week = 5 / 2, task = ''RPG Dialogue'', label = ''Core UI Done''\<rparr>,
     \<lparr>week = 9 / 2, task = ''Bug Bot System'', label = ''Full Integr'n''\<rparr>,
     \<lparr>week = 13 / 2, task = ''Test & Launch'', label = ''MVP Ready''\<rparr>]"

subsection \<open>Building the figure\<close>

text \<open>\<^verbatim>\<open>go.Figure()\<close> (line 34).\<close>

definition new_figure :: figure where
  "new_figure = \<lparr>data = [], annotations = [], layout = None\<rparr>"

definition add_trace :: "figure \<Rightarrow> trace \<Rightarrow> figure" where
  "add_trace fig t = fig\<lparr>data := data fig @ [t]\<rparr>"

definition add_annotation :: "figure \<Rightarrow> annotation \<Rightarrow> figure" where
  "add_annotation fig a = fig\<lparr>annotations := annotations fig @ [a]\<rparr>"

text \<open>
  The call \<^verbatim>\<open>go.Bar(...)\<close> of lines 38-48 for one row, given the colour already looked up.
\<close>

definition go_Bar :: "task_rec \<Rightarrow> string \<Rightarrow> trace" where
  "go_Bar row c =
    \<lparr>trace_type = Bar,
     trace_x = [PyInt (Duration row)],
     trace_y = [PyStr (Task row)],
     trace_name = Type row,
     showlegend = True,
     legendgroup = Some (Type row),
     orientation = Some ''h'',
     marker_color = Some c,
     bar_width = Some (1 / 2),
     bar_base = Some (of_int (Start_Week row) - 1 / 2),
     mode = None, marker = None, trace_text = None, textposition = None,
     textfont = None, cliponaxis = None\<rparr>"

text \<open>
  The bar loop (lines 37-48). \<^verbatim>\<open>color_map[row['Type']]\<close> raises \<^verbatim>\<open>KeyError\<close> for a category
  that is not a key, and the loop stops there.
\<close>

fun bar_loop :: "(string \<rightharpoonup> string) \<Rightarrow> task_rec list \<Rightarrow> figure \<Rightarrow> error + figure" where
  "bar_loop cm [] fig = Inr fig"
| "bar_loop cm (row # rows) fig =
    (case cm (Type row) of
       None \<Rightarrow> Inl (KeyError (Type row))
     | Some c \<Rightarrow> bar_loop cm rows (add_trace fig (go_Bar row c)))"

text \<open>
  The legend pass (lines 51-56) over \<^verbatim>\<open>fig.data\<close>: \<open>legend_added\<close> is the set of names seen
  so far, and a trace whose name is in it gets \<^verbatim>\<open>showlegend = False\<close>.
\<close>

fun legend_loop :: "string set \<Rightarrow> trace list \<Rightarrow> trace list" where
  "legend_loop legend_added [] = []"
| "legend_loop legend_added (t # ts) =
    (if trace_name t \<in> legend_added
     then t\<lparr>showlegend := False\<rparr> # legend_loop legend_added ts
     else t # legend_loop (insert (trace_name t) legend_added) ts)"

definition legend_pass :: "figure \<Rightarrow> figure" where
  "legend_pass fig = fig\<lparr>data := legend_loop {} (data fig)\<rparr>"

text \<open>
  \<^verbatim>\<open>task_positions = {task: i for i, task in enumerate(df['Task'])}\<close> (line 65): a later
  row of the same name overwrites the earlier position.
\<close>

definition task_positions :: "task_rec list \<Rightarrow> (string \<rightharpoonup> nat)" where
  "task_positions df =
    fold (\<lambda>(i, name) m. m(name \<mapsto> i)) (enumerate 0 (map Task df)) Map.empty"

text \<open>The call \<^verbatim>\<open>go.Scatter(...)\<close> of lines 69-84.\<close>

definition go_Scatter :: "milestone_rec \<Rightarrow> nat \<Rightarrow> trace" where
  "go_Scatter milestone y_pos =
    \<lparr>trace_type = Scatter,
     trace_x = [PyFloat (week milestone)],
     trace_y = [PyInt (int y_pos)],
     trace_name = ''Milestone'',
     showlegend = False,
     legendgroup = None, orientation = None, marker_color = None,
     bar_width = None, bar_base = None,
     mode = Some ''markers+text'',
     marker = Some \<lparr>symbol = ''diamond'', size = 12, color = ''#DB4545'',
                     line_color = ''black'', line_width = 1\<rparr>,
     trace_text = Some (label milestone),
     textposition = Some ''top center'',
     textfont = Some (10, ''black''),
     cliponaxis = None\<rparr>"

text \<open>The milestone loop (lines 67-84); the lookup in line 68 may raise \<^verbatim>\<open>KeyError\<close>.\<close>

fun milestone_loop :: "(string \<rightharpoonup> nat) \<Rightarrow> milestone_rec list \<Rightarrow> figure \<Rightarrow> error + figure" where
  "milestone_loop pos [] fig = Inr fig"
| "milestone_loop pos (milestone # rest) fig =
    (case pos (task milestone) of
       None \<Rightarrow> Inl (KeyError (task milestone))
     | Some y_pos \<Rightarrow> milestone_loop pos rest (add_trace fig (go_Scatter milestone y_pos)))"

text \<open>\<^verbatim>\<open>df.iloc[i]\<close>: a position outside the frame raises \<^verbatim>\<open>IndexError\<close>.\<close>

definition iloc :: "task_rec list \<Rightarrow> nat \<Rightarrow> error + task_rec" where
  "iloc df i = (if i < length df then Inr (df ! i) else Inl (IndexError i))"

text \<open>The annotation of lines 90-100 for rows \<open>i\<close> and \<open>i + 1\<close>.\<close>

definition arrow :: "nat \<Rightarrow> task_rec \<Rightarrow> task_rec \<Rightarrow> annotation" where
  "arrow i current_task next_task =
    \<lparr>ann_x = of_int (Start_Week next_task) - 1 / 2,
     ann_y = int i + 1,
     ann_ax = of_int (Start_Week current_task + Duration current_task) - 1 / 2,
     ann_ay = int i,
     axref = None, ayref = None,
     arrowhead = 2, arrowsize = 1, arrowwidth = 2, arrowcolor = ''gray'',
     opacity = 7 / 10\<rparr>"

text \<open>
  The arrow loop (lines 87-100) over the indices \<^verbatim>\<open>range(len(df) - 1)\<close>, which is empty
  for an empty frame.
\<close>

definition arrow_range :: "task_rec list \<Rightarrow> nat list" where
  "arrow_range df = [0 ..< nat (int (length df) - 1)]"

fun arrow_loop :: "task_rec list \<Rightarrow> nat list \<Rightarrow> figure \<Rightarrow> error + figure" where
  "arrow_loop df [] fig = Inr fig"
| "arrow_loop df (i # rest) fig =
    (case iloc df i of
       Inl e \<Rightarrow> Inl e
     | Inr current_task \<Rightarrow>
        (case iloc df (i + 1) of
           Inl e \<Rightarrow> Inl e
         | Inr next_task \<Rightarrow>
            arrow_loop df rest (add_annotation fig (arrow i current_task next_task))))"

text \<open>\<^verbatim>\<open>fig.update_layout(...)\<close> (lines 103-121) and \<^verbatim>\<open>fig.update_traces\<close> (line 123).\<close>

definition update_layout :: "task_rec list \<Rightarrow> figure \<Rightarrow> figure" where
  "update_layout df fig =
    fig\<lparr>layout := Some
      \<lparr>title = ''6-Week MVP Development Plan'',
       xaxis_title = ''Timeline'',
       xaxis_tickmode = ''array'',
       xaxis_tickvals = [1, 2, 3, 4, 5, 6],
       xaxis_ticktext = [''Week 1'', ''Week 2'', ''Week 3'', ''Week 4'', ''Week 5'', ''Week 6''],
       xaxis_range = (1 / 2, 7),
       yaxis_title = ''Dev Tracks'',
       yaxis_categoryorder = ''array'',
       yaxis_categoryarray = rev (map Task df),
       barmode = ''overlay'',
       legend_orientation = ''h'', legend_yanchor = ''bottom'', legend_y = 105 / 100,
       legend_xanchor = ''center'', legend_x = 1 / 2\<rparr>\<rparr>"

definition update_traces :: "figure \<Rightarrow> figure" where
  "update_traces fig = fig\<lparr>data := map (\<lambda>t. t\<lparr>cliponaxis := Some False\<rparr>) (data fig)\<rparr>"

text \<open>
  Lines 23-123 for any task table, colour map and milestone list: the figure that is
  exported, or the first exception.
\<close>

definition build_figure ::
  "task_rec list \<Rightarrow> (string \<rightharpoonup> string) \<Rightarrow> milestone_rec list \<Rightarrow> error + figure" where
  "build_figure df cm ms =
    (case bar_loop cm df new_figure of
       Inl e \<Rightarrow> Inl e
     | Inr fig1 \<Rightarrow>
        (case milestone_loop (task_positions df) ms (legend_pass fig1) of
           Inl e \<Rightarrow> Inl e
         | Inr fig2 \<Rightarrow>
            (case arrow_loop df (arrow_range df) fig2 of
               Inl e \<Rightarrow> Inl e
             | Inr fig3 \<Rightarrow> Inr (update_traces (update_layout df fig3)))))"

subsection \<open>Export\<close>

text \<open>
  The world outside the script: the calls of \<^verbatim>\<open>write_image\<close> that went through (file name,
  the \<^verbatim>\<open>format\<close> argument, the figure) and the lines printed. Whether an export succeeds is
  not decided by the script (rendering backend, directory permissions), so it is a
  parameter: \<open>backend file\<close> is \<open>None\<close> when the export of \<open>file\<close> goes through and the
  exception it raises otherwise.
\<close>

record world =
  files :: "(string \<times> string option \<times> figure) list"
  stdout :: "string list"

type_synonym backend = "string \<Rightarrow> error option"

definition write_image ::
  "backend \<Rightarrow> figure \<Rightarrow> string \<Rightarrow> string option \<Rightarrow> world \<Rightarrow> error + world" where
  "write_image be fig file fmt w =
    (case be file of
       Some e \<Rightarrow> Inl e
     | None \<Rightarrow> Inr (w\<lparr>files := files w @ [(file, fmt, fig)]\<rparr>))"

definition print :: "string \<Rightarrow> world \<Rightarrow> world" where
  "print s w = w\<lparr>stdout := stdout w @ [s]\<rparr>"

text \<open>
  Lines 23-129 with the three tables as parameters. Python has no handler anywhere in
  them, so the first exception ends the run: the result is the world as left at that
  point and the exception, or the final world and \<open>None\<close>.
\<close>

definition run ::
  "task_rec list \<Rightarrow> (string \<rightharpoonup> string) \<Rightarrow> milestone_rec list \<Rightarrow> backend \<Rightarrow> world
     \<Rightarrow> world \<times> error option" where
  "run df cm ms be w =
    (case build_figure df cm ms of
       Inl e \<Rightarrow> (w, Some e)
     | Inr fig \<Rightarrow>
        (case write_image be fig ''gantt_chart.png'' None w of
           Inl e \<Rightarrow> (w, Some e)
         | Inr w1 \<Rightarrow>
            (case write_image be fig ''gantt_chart.svg'' (Some ''svg'') w1 of
               Inl e \<Rightarrow> (w1, Some e)
             | Inr w2 \<Rightarrow> (print ''Saved gantt_chart.png and gantt_chart.svg'' w2, None))))"

text \<open>The script: the run on its own tables.\<close>

definition script :: "backend \<Rightarrow> world \<Rightarrow> world \<times> error option" where
  "script be w = run tasks_data color_map milestones be w"

subsection \<open>Reading the figure\<close>

text \<open>
  What plotly draws for a horizontal bar: with \<^verbatim>\<open>base\<close> \<open>b\<close> and the single \<^verbatim>\<open>x\<close> value
  \<open>d\<close> the bar covers the interval from \<open>b\<close> to \<open>b + d\<close> of the x axis.
\<close>

definition bar_extent :: "trace \<Rightarrow> (pyfloat \<times> pyfloat) option" where
  "bar_extent t =
    (case (bar_base t, trace_x t) of
       (Some b, [PyInt d]) \<Rightarrow> Some (b, b + of_int d)
     | _ \<Rightarrow> None)"

text \<open>
  The row of a category on an axis with \<^verbatim>\<open>categoryorder="array"\<close>: plotly gives the
  entries of \<^verbatim>\<open>categoryarray\<close> the coordinates 0, 1, 2, ... in the order of the array.
\<close>

fun category_position :: "string list \<Rightarrow> string \<Rightarrow> nat option" where
  "category_position [] c = None"
| "category_position (k # ks) c =
    (if k = c then Some 0 else map_option Suc (category_position ks c))"

text \<open>
  Where plotly puts the tail of an annotation's arrow, horizontally. With \<^verbatim>\<open>axref\<close> naming
  an axis, \<^verbatim>\<open>ax\<close> is a coordinate of that axis. With \<^verbatim>\<open>axref\<close> left out, or given as
  \<^verbatim>\<open>'pixel'\<close> (the default), \<^verbatim>\<open>ax\<close> is a distance in pixels from the head of the arrow.
  The head itself is at the coordinate \<^verbatim>\<open>x\<close> of the x axis.
\<close>

datatype tail = Axis_Coordinate pyfloat | Pixels_From_Head pyfloat

definition tail_x :: "annotation \<Rightarrow> tail" where
  "tail_x a =
    (case axref a of
       None \<Rightarrow> Pixels_From_Head (ann_ax a)
     | Some r \<Rightarrow>
        if r = ''pixel'' then Pixels_From_Head (ann_ax a) else Axis_Coordinate (ann_ax a))"

section \<open>Properties\<close>

subsection \<open>The loops, in general\<close>

lemma bar_loop_Inr:
  "bar_loop cm df fig = Inr fig' \<Longrightarrow>
     data fig' = data fig @ map (\<lambda>row. go_Bar row (the (cm (Type row)))) df \<and>
     annotations fig' = annotations fig \<and> layout fig' = layout fig"
  by (induction df arbitrary: fig) (auto simp: add_trace_def split: option.splits)

lemma bar_loop_Inr_dom:
  "bar_loop cm df fig = Inr fig' \<Longrightarrow> Type ` set df \<subseteq> dom cm"
  by (induction df arbitrary: fig) (auto split: option.splits)

lemma bar_loop_total:
  "Type ` set df \<subseteq> dom cm \<Longrightarrow> \<exists>fig'. bar_loop cm df fig = Inr fig'"
  by (induction df arbitrary: fig) (auto split: option.splits)

lemma tasks_data_types: "Type ` set tasks_data \<subseteq> dom color_map"
  by (simp add: tasks_data_def color_map_def)

lemma length_tasks_data: "length tasks_data = 6"
  by (simp add: tasks_data_def)

lemma bars_of_script: "\<exists>fig. bar_loop color_map tasks_data new_figure = Inr fig"
  using bar_loop_total [OF tasks_data_types] by blast

lemma legend_loop_length: "length (legend_loop A ts) = length ts"
  by (induction ts arbitrary: A) auto

lemma legend_loop_nth:
  "i < length ts \<Longrightarrow>
     legend_loop A ts ! i =
       (if trace_name (ts ! i) \<in> A \<union> trace_name ` set (take i ts)
        then (ts ! i)\<lparr>showlegend := False\<rparr> else ts ! i)"
proof (induction ts arbitrary: A i)
  case Nil
  then show ?case by simp
next
  case (Cons t ts)
  show ?case
  proof (cases i)
    case 0
    then show ?thesis by simp
  next
    case (Suc k)
    with Cons.prems have k: "k < length ts" by simp
    show ?thesis
      using Cons.IH [OF k, of A] Cons.IH [OF k, of "insert (trace_name t) A"] Suc
      by auto
  qed
qed


lemma legend_loop_names: "map trace_name (legend_loop A ts) = map trace_name ts"
  by (induction ts arbitrary: A) auto

lemma legend_loop_types: "map trace_type (legend_loop A ts) = map trace_type ts"
  by (induction ts arbitrary: A) auto

lemma legend_loop_extent: "map bar_extent (legend_loop A ts) = map bar_extent ts"
  by (induction ts arbitrary: A) (auto simp: bar_extent_def)

lemma milestone_loop_Inr:
  "milestone_loop pos ms fig = Inr fig' \<Longrightarrow>
     data fig' = data fig @ map (\<lambda>m. go_Scatter m (the (pos (task m)))) ms \<and>
     annotations fig' = annotations fig \<and> layout fig' = layout fig"
  by (induction ms arbitrary: fig) (auto simp: add_trace_def split: option.splits)

lemma milestone_loop_total:
  "task ` set ms \<subseteq> dom pos \<Longrightarrow> \<exists>fig'. milestone_loop pos ms fig = Inr fig'"
  by (induction ms arbitrary: fig) (auto split: option.splits)

lemma milestone_loop_Inr_dom:
  "milestone_loop pos ms fig = Inr fig' \<Longrightarrow> task ` set ms \<subseteq> dom pos"
  by (induction ms arbitrary: fig) (auto split: option.splits)

lemma dom_fold_enumerate:
  "dom (fold (\<lambda>(i, name) m. m(name \<mapsto> i)) (enumerate k names) m0) = dom m0 \<union> set names"
  by (induction names arbitrary: k m0) auto

lemma dom_task_positions: "dom (task_positions df) = Task ` set df"
  by (simp add: task_positions_def dom_fold_enumerate)

lemma arrow_loop_Inr:
  "\<forall>i \<in> set idx. Suc i < length df \<Longrightarrow>
     arrow_loop df idx fig =
       Inr (fig\<lparr>annotations :=
                 annotations fig @ map (\<lambda>i. arrow i (df ! i) (df ! (i + 1))) idx\<rparr>)"
  by (induction idx arbitrary: fig) (auto simp: iloc_def add_annotation_def)

lemma arrow_range_bound: "\<forall>i \<in> set (arrow_range df). Suc i < length df"
  by (auto simp: arrow_range_def)

lemma arrow_range_upt: "arrow_range df = [0 ..< length df - 1]"
  by (simp add: arrow_range_def nat_diff_distrib')

lemma arrow_loop_range:
  "arrow_loop df (arrow_range df) fig =
     Inr (fig\<lparr>annotations :=
               annotations fig @ map (\<lambda>i. arrow i (df ! i) (df ! (i + 1))) [0 ..< length df - 1]\<rparr>)"
  using arrow_loop_Inr [OF arrow_range_bound, of df fig] by (simp add: arrow_range_upt)

lemma build_figure_Inr:
  assumes "build_figure df cm ms = Inr fig"
  shows "\<exists>fig1. bar_loop cm df new_figure = Inr fig1 \<and>
           data fig = map (\<lambda>t. t\<lparr>cliponaxis := Some False\<rparr>)
             (legend_loop {} (data fig1) @
              map (\<lambda>m. go_Scatter m (the (task_positions df (task m)))) ms) \<and>
           annotations fig = map (\<lambda>i. arrow i (df ! i) (df ! (i + 1))) [0 ..< length df - 1] \<and>
           task ` set ms \<subseteq> dom (task_positions df)"
proof -
  from assms obtain fig1 where f1: "bar_loop cm df new_figure = Inr fig1"
    by (auto simp: build_figure_def split: sum.splits)
  with assms obtain fig2 where
    f2: "milestone_loop (task_positions df) ms (legend_pass fig1) = Inr fig2"
    by (auto simp: build_figure_def split: sum.splits)
  from assms f1 f2 have fig:
    "fig = update_traces (update_layout df
       (fig2\<lparr>annotations := annotations fig2 @
           map (\<lambda>i. arrow i (df ! i) (df ! (i + 1))) [0 ..< length df - 1]\<rparr>))"
    by (simp add: build_figure_def arrow_loop_range)
  have a1: "annotations fig1 = []"
    using bar_loop_Inr [OF f1] by (simp add: new_figure_def)
  have d2: "data fig2 = legend_loop {} (data fig1) @
      map (\<lambda>m. go_Scatter m (the (task_positions df (task m)))) ms"
    and a2: "annotations fig2 = []"
    using milestone_loop_Inr [OF f2] a1 by (simp_all add: legend_pass_def)
  have "data fig = map (\<lambda>t. t\<lparr>cliponaxis := Some False\<rparr>) (data fig2)"
    and "annotations fig = map (\<lambda>i. arrow i (df ! i) (df ! (i + 1))) [0 ..< length df - 1]"
    unfolding fig by (simp_all add: update_traces_def update_layout_def a2)
  with d2 f1 milestone_loop_Inr_dom [OF f2] show ?thesis by simp
qed

lemma build_figure_layout:
  "build_figure df cm ms = Inr fig \<Longrightarrow>
     \<exists>lay. layout fig = Some lay \<and> xaxis_range lay = (1 / 2, 7) \<and>
           yaxis_categoryarray lay = rev (map Task df)"
  by (auto simp: build_figure_def update_traces_def update_layout_def split: sum.splits)

lemma milestones_tasks: "task ` set milestones \<subseteq> Task ` set tasks_data"
  by (simp add: milestones_def tasks_data_def)

lemma build_figure_total:
  assumes "Type ` set df \<subseteq> dom cm" and "task ` set ms \<subseteq> Task ` set df"
  shows "\<exists>fig. build_figure df cm ms = Inr fig"
proof -
  from bar_loop_total [OF assms(1)] obtain fig1 where
    f1: "bar_loop cm df new_figure = Inr fig1" by blast
  from assms(2) have "task ` set ms \<subseteq> dom (task_positions df)"
    by (simp add: dom_task_positions)
  from milestone_loop_total [OF this] obtain fig2 where
    f2: "milestone_loop (task_positions df) ms (legend_pass fig1) = Inr fig2" by blast
  show ?thesis
    by (simp add: build_figure_def f1 f2 arrow_loop_range)
qed

lemma figure_of_script: "\<exists>fig. build_figure tasks_data color_map milestones = Inr fig"
  using build_figure_total [OF tasks_data_types milestones_tasks] .

lemma bar_loop_nth:
  "bar_loop cm df new_figure = Inr fig \<Longrightarrow> i < length df \<Longrightarrow>
     data fig ! i = go_Bar (df ! i) (the (cm (Type (df ! i))))"
  using bar_loop_Inr [of cm df new_figure fig] by (simp add: new_figure_def)

lemma build_figure_bars:
  assumes "build_figure df cm ms = Inr fig" and "i < length df"
  shows "trace_type (data fig ! i) = Bar \<and>
         bar_extent (data fig ! i) =
           Some (of_int (Start_Week (df ! i)) - 1 / 2,
                 of_int (Start_Week (df ! i)) - 1 / 2 + of_int (Duration (df ! i)))"
proof -
  from build_figure_Inr [OF assms(1)] obtain fig1 where
    f1: "bar_loop cm df new_figure = Inr fig1" and
    d: "data fig = map (\<lambda>t. t\<lparr>cliponaxis := Some False\<rparr>)
             (legend_loop {} (data fig1) @
              map (\<lambda>m. go_Scatter m (the (task_positions df (task m)))) ms)"
    by blast
  have d1: "data fig1 = map (\<lambda>row. go_Bar row (the (cm (Type row)))) df"
    using bar_loop_Inr [OF f1] by (simp add: new_figure_def)
  then have len: "i < length (legend_loop {} (data fig1))"
    using assms(2) by (simp add: legend_loop_length)
  have i1: "i < length (data fig1)"
    using d1 assms(2) by simp
  have "data fig ! i = (legend_loop {} (data fig1) ! i)\<lparr>cliponaxis := Some False\<rparr>"
    using len by (simp add: d nth_append)
  then have "trace_type (data fig ! i) = trace_type (legend_loop {} (data fig1) ! i)"
    and "bar_extent (data fig ! i) = bar_extent (legend_loop {} (data fig1) ! i)"
    by (simp_all add: bar_extent_def)
  moreover have "trace_type (legend_loop {} (data fig1) ! i) = trace_type (data fig1 ! i)"
    using legend_loop_types [of "{}" "data fig1"] len i1 by (metis nth_map)
  moreover have "bar_extent (legend_loop {} (data fig1) ! i) = bar_extent (data fig1 ! i)"
    using legend_loop_extent [of "{}" "data fig1"] len i1 by (metis nth_map)
  ultimately show ?thesis
    using bar_loop_nth [OF f1 assms(2)] by (simp add: go_Bar_def bar_extent_def)
qed


lemma build_figure_scatters:
  assumes "build_figure df cm ms = Inr fig"
  shows "filter (\<lambda>t. trace_type t = Scatter) (data fig) =
           map (\<lambda>m. (go_Scatter m (the (task_positions df (task m))))\<lparr>cliponaxis := Some False\<rparr>) ms"
proof -
  from build_figure_Inr [OF assms] obtain fig1 where
    f1: "bar_loop cm df new_figure = Inr fig1" and
    d: "data fig = map (\<lambda>t. t\<lparr>cliponaxis := Some False\<rparr>)
             (legend_loop {} (data fig1) @
              map (\<lambda>m. go_Scatter m (the (task_positions df (task m)))) ms)"
    by blast
  have d1: "data fig1 = map (\<lambda>row. go_Bar row (the (cm (Type row)))) df"
    using bar_loop_Inr [OF f1] by (simp add: new_figure_def)
  have "set (map trace_type (legend_loop {} (data fig1))) \<subseteq> {Bar}"
    by (auto simp: legend_loop_types d1 go_Bar_def)
  then have "\<forall>t \<in> set (legend_loop {} (data fig1)). trace_type t = Bar"
    by auto
  then have "filter (\<lambda>t. trace_type t = Scatter) (legend_loop {} (data fig1)) = []"
    by (simp add: filter_empty_conv)
  then show ?thesis
    by (simp add: d filter_map comp_def go_Scatter_def)
qed

lemma task_positions_script:
  "map (task_positions tasks_data) (map task milestones) = [Some 1, Some 3, Some 5]"
  by (simp add: task_positions_def tasks_data_def milestones_def)

lemma build_figure_annotations:
  "build_figure df cm ms = Inr fig \<Longrightarrow>
     annotations fig = map (\<lambda>i. arrow i (df ! i) (df ! (i + 1))) [0 ..< length df - 1]"
  using build_figure_Inr [of df cm ms fig] by blast

lemma run_Inr:
  "build_figure df cm ms = Inr fig \<Longrightarrow>
     run df cm ms be w =
       (case be ''gantt_chart.png'' of
          Some e \<Rightarrow> (w, Some e)
        | None \<Rightarrow>
           (case be ''gantt_chart.svg'' of
              Some e \<Rightarrow> (w\<lparr>files := files w @ [(''gantt_chart.png'', None, fig)]\<rparr>, Some e)
            | None \<Rightarrow>
               (w\<lparr>files := files w @ [(''gantt_chart.png'', None, fig),
                                       (''gantt_chart.svg'', Some ''svg'', fig)],
                  stdout := stdout w @ [''Saved gantt_chart.png and gantt_chart.svg'']\<rparr>,
                None)))"
  by (simp add: run_def write_image_def print_def split: option.splits)

lemma build_figure_bar_count:
  assumes "build_figure df cm ms = Inr fig"
  shows "length (filter (\<lambda>t. trace_type t = Bar) (data fig)) = length df"
proof -
  from build_figure_Inr [OF assms] obtain fig1 where
    f1: "bar_loop cm df new_figure = Inr fig1" and
    d: "data fig = map (\<lambda>t. t\<lparr>cliponaxis := Some False\<rparr>)
             (legend_loop {} (data fig1) @
              map (\<lambda>m. go_Scatter m (the (task_positions df (task m)))) ms)"
    by blast
  have d1: "data fig1 = map (\<lambda>row. go_Bar row (the (cm (Type row)))) df"
    using bar_loop_Inr [OF f1] by (simp add: new_figure_def)
  have "set (map trace_type (legend_loop {} (data fig1))) \<subseteq> {Bar}"
    by (auto simp: legend_loop_types d1 go_Bar_def)
  then have "\<forall>t \<in> set (legend_loop {} (data fig1)). trace_type t = Bar"
    by auto
  then have "filter (\<lambda>t. trace_type t = Bar) (legend_loop {} (data fig1)) =
      legend_loop {} (data fig1)"
    by simp
  then show ?thesis
    by (simp add: d filter_map comp_def go_Scatter_def legend_loop_length d1)
qed

lemma annotations_script:
  assumes "build_figure tasks_data color_map milestones = Inr fig"
  shows "annotations fig =
    map (\<lambda>i. arrow i (tasks_data ! i) (tasks_data ! (i + 1))) [0, 1, 2, 3, 4]"
proof -
  have "[0 ..< length tasks_data - 1] = [0, 1, 2, 3, 4]"
    by (simp add: length_tasks_data upt_rec)
  then show ?thesis
    using build_figure_annotations [OF assms] by simp
qed

subsection \<open>The bars\<close>

text \<open>
  Claim C1. On the six-task table the bar loop ends without an exception, and the figure
  then holds exactly as many Bar traces as the table has tasks, namely six, the trace at
  position \<open>i\<close> being the bar of task \<open>i\<close>. The finished figure, which also holds the
  milestone markers, still has six Bar traces.
\<close>

theorem bar_count:
  "\<exists>fig. bar_loop color_map tasks_data new_figure = Inr fig \<and>
     length (filter (\<lambda>t. trace_type t = Bar) (data fig)) = length tasks_data \<and>
     length tasks_data = 6 \<and>
     map trace_y (data fig) = map (\<lambda>row. [PyStr (Task row)]) tasks_data \<and>
     (\<exists>final. build_figure tasks_data color_map milestones = Inr final \<and>
        length (filter (\<lambda>t. trace_type t = Bar) (data final)) = 6)"
proof -
  obtain fig where fig: "bar_loop color_map tasks_data new_figure = Inr fig"
    using bars_of_script by blast
  have "data fig = map (\<lambda>row. go_Bar row (the (color_map (Type row)))) tasks_data"
    using bar_loop_Inr [OF fig] by (simp add: new_figure_def)
  then have n: "length (filter (\<lambda>t. trace_type t = Bar) (data fig)) = length tasks_data"
    and y: "map trace_y (data fig) = map (\<lambda>row. [PyStr (Task row)]) tasks_data"
    by (simp_all add: go_Bar_def filter_map comp_def)
  obtain final where final: "build_figure tasks_data color_map milestones = Inr final"
    using figure_of_script by blast
  have "length (filter (\<lambda>t. trace_type t = Bar) (data final)) = 6"
    using build_figure_bar_count [OF final] by (simp add: length_tasks_data)
  with final have f: "\<exists>final. build_figure tasks_data color_map milestones = Inr final \<and>
        length (filter (\<lambda>t. trace_type t = Bar) (data final)) = 6"
    by blast
  show ?thesis
    by (rule exI [of _ fig]) (simp only: fig n y f length_tasks_data simp_thms)
qed

text \<open>
  Claim C2 as stated (the bar starts at the start week) fails on the first task: it
  starts in week 1 and its bar covers the interval from 1/2 to 3/2.
\<close>

theorem bar_base_not_start_week:
  "\<exists>fig. bar_loop color_map tasks_data new_figure = Inr fig \<and>
     Start_Week (tasks_data ! 0) = 1 \<and>
     bar_base (data fig ! 0) = Some (1 / 2) \<and>
     bar_extent (data fig ! 0) = Some (1 / 2, 3 / 2) \<and>
     bar_base (data fig ! 0) \<noteq> Some (of_int (Start_Week (tasks_data ! 0)))"
  by (simp add: tasks_data_def color_map_def new_figure_def add_trace_def go_Bar_def
      bar_extent_def)

text \<open>
  Claim C2, amended. For every task of any table on which the bar loop ends without an
  exception, the bar of the task is horizontal, lies in the row named by the task, starts
  half a week before the task's start week and has the task's duration as its length.
\<close>

theorem bar_position:
  assumes "bar_loop cm df new_figure = Inr fig" and "i < length df"
  shows "trace_type (data fig ! i) = Bar \<and>
         trace_y (data fig ! i) = [PyStr (Task (df ! i))] \<and>
         orientation (data fig ! i) = Some ''h'' \<and>
         bar_extent (data fig ! i) =
           Some (of_int (Start_Week (df ! i)) - 1 / 2,
                 of_int (Start_Week (df ! i)) - 1 / 2 + of_int (Duration (df ! i)))"
  using bar_loop_Inr [OF assms(1)] assms(2)
  by (simp add: new_figure_def go_Bar_def bar_extent_def)

theorem bar_position_witness:
  "\<exists>fig. bar_loop color_map tasks_data new_figure = Inr fig \<and>
     trace_y (data fig ! 2) = [PyStr ''MCP Integration''] \<and>
     bar_extent (data fig ! 2) = Some (5 / 2, 7 / 2)"
proof -
  obtain fig where fig: "bar_loop color_map tasks_data new_figure = Inr fig"
    using bars_of_script by blast
  have "(2::nat) < length tasks_data" by (simp add: tasks_data_def)
  from bar_position [OF fig this] fig show ?thesis
    by (auto simp: tasks_data_def)
qed

text \<open>
  Claim C3. The marker colour of the bar of every task is the colour the colour map gives
  for the task's category; so two tasks of the same category get the same colour.
\<close>

theorem bar_color:
  assumes "bar_loop cm df new_figure = Inr fig" and "i < length df" and "j < length df"
  shows "marker_color (data fig ! i) = cm (Type (df ! i)) \<and>
         (\<exists>c. marker_color (data fig ! i) = Some c) \<and>
         (Type (df ! i) = Type (df ! j) \<longrightarrow>
            marker_color (data fig ! i) = marker_color (data fig ! j))"
proof -
  have "df ! i \<in> set df"
    using assms(2) by simp
  then have "Type (df ! i) \<in> dom cm"
    using bar_loop_Inr_dom [OF assms(1)] by blast
  then show ?thesis
    using bar_loop_Inr [OF assms(1)] assms(2,3)
    by (auto simp: new_figure_def go_Bar_def)
qed

theorem bar_color_witness:
  "\<exists>fig. bar_loop color_map tasks_data new_figure = Inr fig \<and>
     marker_color (data fig ! 2) = Some ''#1FB8CD'' \<and>
     Type (tasks_data ! 2) = Type (tasks_data ! 3) \<and>
     marker_color (data fig ! 2) = marker_color (data fig ! 3)"
proof -
  obtain fig where fig: "bar_loop color_map tasks_data new_figure = Inr fig"
    using bars_of_script by blast
  have "(2::nat) < length tasks_data" "(3::nat) < length tasks_data"
    by (simp_all add: tasks_data_def)
  from bar_color [OF fig this] fig show ?thesis
    by (auto simp: tasks_data_def color_map_def)
qed


subsection \<open>The legend pass\<close>

lemma legend_loop_bars:
  assumes "\<forall>t \<in> set ts. showlegend t" and "i < length ts"
  shows "showlegend (legend_loop {} ts ! i) \<longleftrightarrow>
           trace_name (ts ! i) \<notin> trace_name ` set (take i ts)"
  using assms by (simp add: legend_loop_nth)

lemma first_occurrence:
  "n \<in> set ns \<Longrightarrow> \<exists>i < length ns. ns ! i = n \<and> n \<notin> set (take i ns)"
proof (induction ns)
  case Nil
  then show ?case by simp
next
  case (Cons a ns)
  show ?case
  proof (cases "a = n")
    case True
    then have "(a # ns) ! 0 = n \<and> n \<notin> set (take 0 (a # ns))" by simp
    then show ?thesis by blast
  next
    case False
    with Cons obtain i where "i < length ns" "ns ! i = n" "n \<notin> set (take i ns)"
      by auto
    with False have "Suc i < length (a # ns) \<and> (a # ns) ! Suc i = n \<and>
        n \<notin> set (take (Suc i) (a # ns))"
      by auto
    then show ?thesis by blast
  qed
qed

lemma in_take_iff: "n \<in> set (take i ns) \<longleftrightarrow> (\<exists>j < i. j < length ns \<and> ns ! j = n)"
  by (auto simp: in_set_conv_nth)

text \<open>
  Claim C4. After the legend pass over the bars, every category name among them has a
  trace \<open>i\<close> of that name with \<^verbatim>\<open>showlegend\<close> true, and every other trace \<open>j\<close> of the same
  name comes later and has \<^verbatim>\<open>showlegend\<close> false: exactly one legend entry per category, on
  the first trace of the category.
\<close>

theorem legend_dedup:
  assumes "bar_loop cm df new_figure = Inr fig"
  shows "\<forall>n \<in> set (map trace_name (data fig)).
           \<exists>i < length (data (legend_pass fig)).
             trace_name (data (legend_pass fig) ! i) = n \<and>
             showlegend (data (legend_pass fig) ! i) \<and>
             (\<forall>j < length (data (legend_pass fig)).
                trace_name (data (legend_pass fig) ! j) = n \<and> j \<noteq> i \<longrightarrow>
                  i < j \<and> \<not> showlegend (data (legend_pass fig) ! j))"
proof
  fix n
  let ?ts = "data fig"
  let ?out = "data (legend_pass fig)"
  let ?ns = "map trace_name ?ts"
  assume n: "n \<in> set ?ns"
  have ts: "?ts = map (\<lambda>row. go_Bar row (the (cm (Type row)))) df"
    using bar_loop_Inr [OF assms] by (simp add: new_figure_def)
  have all: "\<forall>t \<in> set ?ts. showlegend t"
    unfolding ts by (simp add: go_Bar_def)
  have out: "?out = legend_loop {} ?ts"
    by (simp add: legend_pass_def)
  have len: "length ?out = length ?ts"
    by (simp add: out legend_loop_length)
  have name: "trace_name (?out ! k) = ?ns ! k" if "k < length ?ts" for k
    using that legend_loop_names [of "{}" ?ts] len
    by (metis nth_map out)
  have shown: "showlegend (?out ! k) \<longleftrightarrow> ?ns ! k \<notin> set (take k ?ns)" if "k < length ?ts" for k
    using legend_loop_bars [OF all that] that by (simp add: out take_map)
  from first_occurrence [OF n] obtain i where
    i: "i < length ?ts" "?ns ! i = n" "n \<notin> set (take i ?ns)"
    by auto
  have later: "i < j \<and> \<not> showlegend (?out ! j)"
    if j: "j < length ?out" "trace_name (?out ! j) = n \<and> j \<noteq> i" for j
  proof -
    from j len have jl: "j < length ?ts" by simp
    from j name [OF jl] have nj: "?ns ! j = n" by simp
    have "\<not> j < i"
    proof
      assume "j < i"
      with nj jl have "n \<in> set (take i ?ns)"
        by (auto simp: in_take_iff)
      with i(3) show False by simp
    qed
    with j have ij: "i < j" by simp
    with i jl have "n \<in> set (take j ?ns)"
      by (auto simp: in_take_iff)
    with shown [OF jl] nj ij show ?thesis by simp
  qed
  have "i < length ?out \<and> trace_name (?out ! i) = n \<and> showlegend (?out ! i)"
    using i len name [OF i(1)] shown [OF i(1)] by simp
  with later show "\<exists>i < length ?out.
             trace_name (?out ! i) = n \<and> showlegend (?out ! i) \<and>
             (\<forall>j < length ?out. trace_name (?out ! j) = n \<and> j \<noteq> i \<longrightarrow>
                  i < j \<and> \<not> showlegend (?out ! j))"
    by blast
qed

theorem legend_dedup_witness:
  "\<exists>fig. bar_loop color_map tasks_data new_figure = Inr fig \<and>
     map showlegend (data (legend_pass fig)) = [True, False, True, False, True, True] \<and>
     (\<exists>i < length (data (legend_pass fig)).
        trace_name (data (legend_pass fig) ! i) = ''Backend'' \<and>
        showlegend (data (legend_pass fig) ! i) \<and>
        (\<forall>j < length (data (legend_pass fig)).
           trace_name (data (legend_pass fig) ! j) = ''Backend'' \<and> j \<noteq> i \<longrightarrow>
             i < j \<and> \<not> showlegend (data (legend_pass fig) ! j)))"
proof -
  obtain fig where fig: "bar_loop color_map tasks_data new_figure = Inr fig"
    using bars_of_script by blast
  have d: "data fig = map (\<lambda>row. go_Bar row (the (color_map (Type row)))) tasks_data"
    using bar_loop_Inr [OF fig] by (simp add: new_figure_def)
  have names: "map trace_name (data fig) = map Type tasks_data"
    unfolding d by (simp add: go_Bar_def)
  have mem: "''Backend'' \<in> set (map trace_name (data fig))"
    unfolding names by (simp add: tasks_data_def)
  note w = legend_dedup [OF fig, THEN bspec, OF mem]
  have shown: "map showlegend (legend_loop {} (data fig)) = [True, False, True, False, True, True]"
    unfolding d by (simp add: tasks_data_def go_Bar_def)
  have s: "map showlegend (data (legend_pass fig)) = [True, False, True, False, True, True]"
    using shown by (simp add: legend_pass_def)
  show ?thesis
    by (rule exI [of _ fig], rule conjI [OF fig], rule conjI [OF s], rule w)
qed

subsection \<open>The milestones\<close>

text \<open>
  Claim C5 on the script's own tables. One Scatter trace is added per milestone (three in
  all) and its \<^verbatim>\<open>x\<close> is the milestone's week. Its \<^verbatim>\<open>y\<close> is the position of the task in
  the task table (1, 3 and 5), whereas the y axis lists the tasks in reverse
  (\<^verbatim>\<open>categoryarray\<close>), so the rows of the three tasks are 4, 2 and 0. No marker has the
  row of its task as its \<^verbatim>\<open>y\<close>: the number 1 of the first marker is the row of another
  task, and the bars address their rows by task name, not by number.
\<close>

theorem milestone_rows:
  "\<exists>fig lay. build_figure tasks_data color_map milestones = Inr fig \<and>
     layout fig = Some lay \<and>
     length (filter (\<lambda>t. trace_type t = Scatter) (data fig)) = 3 \<and>
     map trace_x (filter (\<lambda>t. trace_type t = Scatter) (data fig)) =
       map (\<lambda>m. [PyFloat (week m)]) milestones \<and>
     map trace_y (filter (\<lambda>t. trace_type t = Scatter) (data fig)) =
       [[PyInt 1], [PyInt 3], [PyInt 5]] \<and>
     map (category_position (yaxis_categoryarray lay)) (map task milestones) =
       [Some 4, Some 2, Some 0] \<and>
     category_position (yaxis_categoryarray lay) ''Performance'' = Some 1"
proof -
  obtain fig where fig: "build_figure tasks_data color_map milestones = Inr fig"
    using figure_of_script by blast
  from build_figure_layout [OF fig] obtain lay where
    lay: "layout fig = Some lay" "yaxis_categoryarray lay = rev (map Task tasks_data)"
    by blast
  note sc = build_figure_scatters [OF fig]
  have n: "length (filter (\<lambda>t. trace_type t = Scatter) (data fig)) = 3"
    by (simp add: sc milestones_def)
  have x: "map trace_x (filter (\<lambda>t. trace_type t = Scatter) (data fig)) =
       map (\<lambda>m. [PyFloat (week m)]) milestones"
    by (simp add: sc go_Scatter_def)
  have "map trace_y (filter (\<lambda>t. trace_type t = Scatter) (data fig)) =
       map (\<lambda>p. [PyInt (int (the p))]) (map (task_positions tasks_data) (map task milestones))"
    by (simp add: sc go_Scatter_def comp_def)
  then have y: "map trace_y (filter (\<lambda>t. trace_type t = Scatter) (data fig)) =
       [[PyInt 1], [PyInt 3], [PyInt 5]]"
    unfolding task_positions_script by simp
  have r: "map (category_position (yaxis_categoryarray lay)) (map task milestones) =
       [Some 4, Some 2, Some 0]"
    by (simp add: lay tasks_data_def milestones_def)
  have p: "category_position (yaxis_categoryarray lay) ''Performance'' = Some 1"
    by (simp add: lay tasks_data_def)
  show ?thesis
    by (rule exI [of _ fig], rule exI [of _ lay]) (simp only: fig lay(1) n x y r p simp_thms)
qed

subsection \<open>The dependency arrows\<close>

text \<open>
  Claim C6 on the script's own tables. Five annotations are added, one per adjacent pair
  of tasks, and the numbers passed are the ones the claim names: \<^verbatim>\<open>x\<close> is the start of the
  next bar and \<^verbatim>\<open>ax\<close> the end of the current one (3/2 for the first pair, where the first
  bar ends and the second begins). But the call passes no \<^verbatim>\<open>axref\<close>, so \<^verbatim>\<open>ax\<close> is read as a
  distance in pixels from the head of the arrow: the tail of no arrow is at the end of a
  bar on the x axis.
\<close>

theorem dependency_arrows:
  "\<exists>fig. build_figure tasks_data color_map milestones = Inr fig \<and>
     length (annotations fig) = 5 \<and>
     map ann_x (annotations fig) = [3 / 2, 5 / 2, 7 / 2, 9 / 2, 11 / 2] \<and>
     map ann_ax (annotations fig) = [3 / 2, 5 / 2, 7 / 2, 9 / 2, 11 / 2] \<and>
     map axref (annotations fig) = [None, None, None, None, None] \<and>
     map tail_x (annotations fig) =
       [Pixels_From_Head (3 / 2), Pixels_From_Head (5 / 2), Pixels_From_Head (7 / 2),
        Pixels_From_Head (9 / 2), Pixels_From_Head (11 / 2)] \<and>
     bar_extent (data fig ! 0) = Some (1 / 2, 3 / 2) \<and>
     bar_extent (data fig ! 1) = Some (3 / 2, 5 / 2) \<and>
     tail_x (annotations fig ! 0) \<noteq> Axis_Coordinate (3 / 2)"
proof -
  obtain fig where fig: "build_figure tasks_data color_map milestones = Inr fig"
    using figure_of_script by blast
  note a = annotations_script [OF fig]
  have n: "length (annotations fig) = 5"
    by (simp add: a)
  have x: "map ann_x (annotations fig) = [3 / 2, 5 / 2, 7 / 2, 9 / 2, 11 / 2]"
    by (simp add: a arrow_def tasks_data_def)
  have ax: "map ann_ax (annotations fig) = [3 / 2, 5 / 2, 7 / 2, 9 / 2, 11 / 2]"
    by (simp add: a arrow_def tasks_data_def)
  have r: "map axref (annotations fig) = [None, None, None, None, None]"
    by (simp add: a arrow_def)
  have t: "map tail_x (annotations fig) =
       [Pixels_From_Head (3 / 2), Pixels_From_Head (5 / 2), Pixels_From_Head (7 / 2),
        Pixels_From_Head (9 / 2), Pixels_From_Head (11 / 2)]"
    by (simp add: a arrow_def tail_x_def tasks_data_def)
  have "(0::nat) < length tasks_data" and "(1::nat) < length tasks_data"
    by (simp_all add: length_tasks_data)
  from build_figure_bars [OF fig this(1)] build_figure_bars [OF fig this(2)]
  have b0: "bar_extent (data fig ! 0) = Some (1 / 2, 3 / 2)"
    and b1: "bar_extent (data fig ! 1) = Some (3 / 2, 5 / 2)"
    by (simp_all add: tasks_data_def)
  have t0: "tail_x (annotations fig ! 0) \<noteq> Axis_Coordinate (3 / 2)"
    by (simp add: a arrow_def tail_x_def)
  show ?thesis
    by (rule exI [of _ fig]) (simp only: fig n x ax r t b0 b1 t0 simp_thms)
qed

subsection \<open>Export and failures\<close>

text \<open>
  Claim C7. When both exports go through, the script changes the world by exactly two
  file writes, \<^verbatim>\<open>gantt_chart.png\<close> followed by \<^verbatim>\<open>gantt_chart.svg\<close>, both of the same
  figure, and by one printed line; it ends without an exception. The script reads nothing:
  its only inputs here are the behaviour of the export and the world it starts in.
\<close>

theorem script_effects:
  assumes "be ''gantt_chart.png'' = None" and "be ''gantt_chart.svg'' = None"
  shows "\<exists>fig. build_figure tasks_data color_map milestones = Inr fig \<and>
           script be w =
             (w\<lparr>files := files w @ [(''gantt_chart.png'', None, fig),
                                     (''gantt_chart.svg'', Some ''svg'', fig)],
                stdout := stdout w @ [''Saved gantt_chart.png and gantt_chart.svg'']\<rparr>,
              None)"
proof -
  obtain fig where fig: "build_figure tasks_data color_map milestones = Inr fig"
    using figure_of_script by blast
  have "script be w =
             (w\<lparr>files := files w @ [(''gantt_chart.png'', None, fig),
                                     (''gantt_chart.svg'', Some ''svg'', fig)],
                stdout := stdout w @ [''Saved gantt_chart.png and gantt_chart.svg'']\<rparr>,
              None)"
    unfolding script_def run_Inr [OF fig] by (simp add: assms)
  with fig show ?thesis by blast
qed

theorem script_effects_witness:
  "\<exists>fig. build_figure tasks_data color_map milestones = Inr fig \<and>
     script (\<lambda>file. None) \<lparr>files = [], stdout = []\<rparr> =
       (\<lparr>files = [(''gantt_chart.png'', None, fig), (''gantt_chart.svg'', Some ''svg'', fig)],
         stdout = [''Saved gantt_chart.png and gantt_chart.svg'']\<rparr>,
        None)"
  using script_effects [of "\<lambda>file. None" "\<lparr>files = [], stdout = []\<rparr>"] by simp

text \<open>
  Claim C8. No exception is caught or changed. An exception of the first export ends the
  script with that exception and the world untouched; one of the second export ends it
  with that exception after the first file alone, and nothing is printed. The same holds
  for the run on any tables when a lookup of the bar loop or of the milestone loop fails.
\<close>

theorem errors_propagate:
  "(be ''gantt_chart.png'' = Some e \<longrightarrow> script be w = (w, Some e)) \<and>
   (be ''gantt_chart.png'' = None \<and> be ''gantt_chart.svg'' = Some e \<longrightarrow>
      (\<exists>fig. build_figure tasks_data color_map milestones = Inr fig \<and>
         script be w = (w\<lparr>files := files w @ [(''gantt_chart.png'', None, fig)]\<rparr>, Some e))) \<and>
   (bar_loop cm df new_figure = Inl e \<longrightarrow> run df cm ms be w = (w, Some e)) \<and>
   (\<forall>fig1. bar_loop cm df new_figure = Inr fig1 \<and>
      milestone_loop (task_positions df) ms (legend_pass fig1) = Inl e \<longrightarrow>
        run df cm ms be w = (w, Some e))"
proof -
  obtain fig where fig: "build_figure tasks_data color_map milestones = Inr fig"
    using figure_of_script by blast
  have 1: "be ''gantt_chart.png'' = Some e \<longrightarrow> script be w = (w, Some e)"
    unfolding script_def run_Inr [OF fig] by simp
  have "be ''gantt_chart.png'' = None \<and> be ''gantt_chart.svg'' = Some e \<longrightarrow>
      script be w = (w\<lparr>files := files w @ [(''gantt_chart.png'', None, fig)]\<rparr>, Some e)"
    unfolding script_def run_Inr [OF fig] by simp
  with fig have 2: "be ''gantt_chart.png'' = None \<and> be ''gantt_chart.svg'' = Some e \<longrightarrow>
      (\<exists>fig. build_figure tasks_data color_map milestones = Inr fig \<and>
         script be w = (w\<lparr>files := files w @ [(''gantt_chart.png'', None, fig)]\<rparr>, Some e))"
    by blast
  have 3: "bar_loop cm df new_figure = Inl e \<longrightarrow> run df cm ms be w = (w, Some e)"
    by (simp add: run_def build_figure_def)
  have 4: "\<forall>fig1. bar_loop cm df new_figure = Inr fig1 \<and>
      milestone_loop (task_positions df) ms (legend_pass fig1) = Inl e \<longrightarrow>
        run df cm ms be w = (w, Some e)"
    by (simp add: run_def build_figure_def)
  from 1 2 3 4 show ?thesis by (intro conjI)
qed

theorem errors_propagate_witness:
  "script (\<lambda>file. if file = ''gantt_chart.png'' then Some (Failure ''kaleido'') else None)
      \<lparr>files = [], stdout = []\<rparr> =
     (\<lparr>files = [], stdout = []\<rparr>, Some (Failure ''kaleido'')) \<and>
   run [\<lparr>Task = ''Docs'', Start_Week = 1, Duration = 1, Type = ''Writing'',
          Description = ''''\<rparr>] color_map [] (\<lambda>file. None) \<lparr>files = [], stdout = []\<rparr> =
     (\<lparr>files = [], stdout = []\<rparr>, Some (KeyError ''Writing''))"
proof -
  let ?be = "\<lambda>file. if file = ''gantt_chart.png'' then Some (Failure ''kaleido'') else None"
  let ?w = "\<lparr>files = [], stdout = []\<rparr>"
  let ?df = "[\<lparr>Task = ''Docs'', Start_Week = 1, Duration = 1, Type = ''Writing'',
          Description = ''''\<rparr>]"
  have a: "script ?be ?w = (?w, Some (Failure ''kaleido''))"
    using errors_propagate [of ?be "Failure ''kaleido''" ?w color_map "[]" "[]"]
    by simp
  have k: "bar_loop color_map ?df new_figure = Inl (KeyError ''Writing'')"
    by (simp add: color_map_def)
  have b: "run ?df color_map [] (\<lambda>file. None) ?w = (?w, Some (KeyError ''Writing''))"
    using errors_propagate [of "\<lambda>file. None" "KeyError ''Writing''" ?w color_map ?df "[]"] k
    by blast
  from a b show ?thesis by (rule conjI)
qed

subsection \<open>The tables\<close>

text \<open>
  Claim C9. Every category of the task table is a key of the colour map and every
  milestone names a task of the table, hence a key of \<^verbatim>\<open>task_positions\<close>; so both loops
  end without an exception, and building the figure never raises.
\<close>

theorem lookups_succeed:
  "(\<forall>row \<in> set tasks_data. Type row \<in> dom color_map) \<and>
   (\<forall>m \<in> set milestones. task m \<in> Task ` set tasks_data) \<and>
   (\<forall>m \<in> set milestones. task m \<in> dom (task_positions tasks_data)) \<and>
   (\<exists>fig1. bar_loop color_map tasks_data new_figure = Inr fig1 \<and>
      (\<exists>fig2. milestone_loop (task_positions tasks_data) milestones (legend_pass fig1) =
         Inr fig2)) \<and>
   (\<forall>e. build_figure tasks_data color_map milestones \<noteq> Inl e)"
proof -
  have 1: "\<forall>row \<in> set tasks_data. Type row \<in> dom color_map"
    using tasks_data_types by blast
  have 2: "\<forall>m \<in> set milestones. task m \<in> Task ` set tasks_data"
    using milestones_tasks by blast
  have sub: "task ` set milestones \<subseteq> dom (task_positions tasks_data)"
    using milestones_tasks by (simp add: dom_task_positions)
  then have 3: "\<forall>m \<in> set milestones. task m \<in> dom (task_positions tasks_data)"
    by blast
  obtain fig1 where f1: "bar_loop color_map tasks_data new_figure = Inr fig1"
    using bars_of_script by blast
  from milestone_loop_total [OF sub] obtain fig2 where
    "milestone_loop (task_positions tasks_data) milestones (legend_pass fig1) = Inr fig2"
    by blast
  with f1 have 4: "\<exists>fig1. bar_loop color_map tasks_data new_figure = Inr fig1 \<and>
      (\<exists>fig2. milestone_loop (task_positions tasks_data) milestones (legend_pass fig1) =
         Inr fig2)"
    by blast
  have 5: "\<forall>e. build_figure tasks_data color_map milestones \<noteq> Inl e"
    using figure_of_script by auto
  from 1 2 3 4 5 show ?thesis by (intro conjI)
qed

theorem lookups_succeed_witness:
  "color_map (Type (tasks_data ! 4)) = Some ''#D2BA4C'' \<and>
   task_positions tasks_data (task (milestones ! 1)) = Some 3 \<and>
   Type (tasks_data ! 4) \<in> dom color_map \<and>
   task (milestones ! 1) \<in> dom (task_positions tasks_data)"
proof -
  have r: "tasks_data ! 4 \<in> set tasks_data" and m: "milestones ! 1 \<in> set milestones"
    by (simp_all add: tasks_data_def milestones_def)
  from lookups_succeed have "\<forall>row \<in> set tasks_data. Type row \<in> dom color_map"
    by (rule conjunct1)
  from this r have a: "Type (tasks_data ! 4) \<in> dom color_map"
    by (rule bspec)
  from lookups_succeed have
    "\<forall>m \<in> set milestones. task m \<in> dom (task_positions tasks_data)"
    by (rule conjunct2 [THEN conjunct2, THEN conjunct1])
  from this m have b: "task (milestones ! 1) \<in> dom (task_positions tasks_data)"
    by (rule bspec)
  have c: "color_map (Type (tasks_data ! 4)) = Some ''#D2BA4C''"
    by (simp add: tasks_data_def color_map_def)
  have d: "task_positions tasks_data (task (milestones ! 1)) = Some 3"
    by (simp add: task_positions_def tasks_data_def milestones_def)
  from c d a b show ?thesis by (intro conjI)
qed

text \<open>
  Claim C10. The six tasks start in week 1, each next task starts where the previous one
  ends, and the last task occupies week 6 (its start week plus its duration minus one).
  So every bar lies within the range of the x axis, from 0.5 to 7. Each of the five
  arrows is given the same number as \<^verbatim>\<open>ax\<close> and as \<^verbatim>\<open>x\<close>; with no \<^verbatim>\<open>axref\<close> that number is,
  for the tail, a distance in pixels from the head and not the head's coordinate.
\<close>

theorem contiguous_schedule:
  "length tasks_data = 6 \<and>
   Start_Week (hd tasks_data) = 1 \<and>
   (\<forall>i. i + 1 < length tasks_data \<longrightarrow>
      Start_Week (tasks_data ! (i + 1)) =
        Start_Week (tasks_data ! i) + Duration (tasks_data ! i)) \<and>
   Start_Week (last tasks_data) + Duration (last tasks_data) - 1 = 6 \<and>
   (\<exists>fig lay. build_figure tasks_data color_map milestones = Inr fig \<and>
      layout fig = Some lay \<and> xaxis_range lay = (1 / 2, 7) \<and>
      (\<forall>i < length tasks_data. \<exists>lo hi.
         bar_extent (data fig ! i) = Some (lo, hi) \<and>
         fst (xaxis_range lay) \<le> lo \<and> lo \<le> hi \<and> hi \<le> snd (xaxis_range lay)) \<and>
      length (annotations fig) = 5 \<and>
      (\<forall>a \<in> set (annotations fig).
         ann_ax a = ann_x a \<and> tail_x a = Pixels_From_Head (ann_x a)))"
proof -
  have 1: "Start_Week (hd tasks_data) = 1"
    by (simp add: tasks_data_def)
  have weeks: "map Start_Week tasks_data = [1, 2, 3, 4, 5, 6]"
    and durs: "map Duration tasks_data = [1, 1, 1, 1, 1, 1]"
    by (simp_all add: tasks_data_def)
  have sw: "Start_Week (tasks_data ! i) = int i + 1" and du: "Duration (tasks_data ! i) = 1"
    if "i < 6" for i
  proof -
    from that have "i < length tasks_data" by (simp add: length_tasks_data)
    then have "Start_Week (tasks_data ! i) = map Start_Week tasks_data ! i"
      and "Duration (tasks_data ! i) = map Duration tasks_data ! i"
      by simp_all
    moreover from that have "i \<in> {0, 1, 2, 3, 4, 5}" by auto
    ultimately show "Start_Week (tasks_data ! i) = int i + 1" and "Duration (tasks_data ! i) = 1"
      unfolding weeks durs by auto
  qed
  have 2: "\<forall>i. i + 1 < length tasks_data \<longrightarrow>
      Start_Week (tasks_data ! (i + 1)) =
        Start_Week (tasks_data ! i) + Duration (tasks_data ! i)"
    by (simp add: length_tasks_data sw du)
  have 3: "Start_Week (last tasks_data) + Duration (last tasks_data) - 1 = 6"
    by (simp add: tasks_data_def)
  obtain fig where fig: "build_figure tasks_data color_map milestones = Inr fig"
    using figure_of_script by blast
  from build_figure_layout [OF fig] obtain lay where
    lay: "layout fig = Some lay" "xaxis_range lay = (1 / 2, 7)"
    by blast
  have bars: "\<forall>i < length tasks_data. \<exists>lo hi.
         bar_extent (data fig ! i) = Some (lo, hi) \<and>
         fst (xaxis_range lay) \<le> lo \<and> lo \<le> hi \<and> hi \<le> snd (xaxis_range lay)"
  proof (intro allI impI)
    fix i assume i: "i < length tasks_data"
    then have i6: "i < 6" by (simp add: length_tasks_data)
    from build_figure_bars [OF fig i]
    have "bar_extent (data fig ! i) = Some (of_int (int i + 1) - 1 / 2, of_int (int i + 1) - 1 / 2 + 1)"
      by (simp add: sw [OF i6] du [OF i6])
    moreover have "fst (xaxis_range lay) \<le> (of_int (int i + 1) - 1 / 2 :: rat)"
      by (simp add: lay)
    moreover have "(of_int (int i + 1) - 1 / 2 + 1 :: rat) \<le> snd (xaxis_range lay)"
      using i6 by (simp add: lay)
    ultimately show "\<exists>lo hi.
         bar_extent (data fig ! i) = Some (lo, hi) \<and>
         fst (xaxis_range lay) \<le> lo \<and> lo \<le> hi \<and> hi \<le> snd (xaxis_range lay)"
      by simp
  qed
  have n: "length (annotations fig) = 5"
    by (simp add: build_figure_annotations [OF fig] length_tasks_data)
  have arrows: "\<forall>a \<in> set (annotations fig).
         ann_ax a = ann_x a \<and> tail_x a = Pixels_From_Head (ann_x a)"
  proof
    fix a assume "a \<in> set (annotations fig)"
    then obtain i where i: "i < 5" and a: "a = arrow i (tasks_data ! i) (tasks_data ! (i + 1))"
      by (auto simp: build_figure_annotations [OF fig] length_tasks_data)
    from i have "i < 6" "i + 1 < 6" by simp_all
    then show "ann_ax a = ann_x a \<and> tail_x a = Pixels_From_Head (ann_x a)"
      by (simp add: a arrow_def tail_x_def sw du)
  qed
  have 5: "\<exists>fig lay. build_figure tasks_data color_map milestones = Inr fig \<and>
      layout fig = Some lay \<and> xaxis_range lay = (1 / 2, 7) \<and>
      (\<forall>i < length tasks_data. \<exists>lo hi.
         bar_extent (data fig ! i) = Some (lo, hi) \<and>
         fst (xaxis_range lay) \<le> lo \<and> lo \<le> hi \<and> hi \<le> snd (xaxis_range lay)) \<and>
      length (annotations fig) = 5 \<and>
      (\<forall>a \<in> set (annotations fig).
         ann_ax a = ann_x a \<and> tail_x a = Pixels_From_Head (ann_x a))"
    using fig lay bars n arrows by blast
  from length_tasks_data 1 2 3 5 show ?thesis by (intro conjI)
qed

theorem contiguous_schedule_witness:
  "Start_Week (tasks_data ! (0 + 1)) =
     Start_Week (tasks_data ! 0) + Duration (tasks_data ! 0) \<and>
   (\<exists>fig. build_figure tasks_data color_map milestones = Inr fig \<and>
      (\<exists>lo hi. bar_extent (data fig ! 5) = Some (lo, hi) \<and> 1 / 2 \<le> lo \<and> hi \<le> 7) \<and>
      ann_ax (annotations fig ! 0) = ann_x (annotations fig ! 0) \<and>
      tail_x (annotations fig ! 0) = Pixels_From_Head (ann_x (annotations fig ! 0)))"
proof -
  note c = contiguous_schedule
  from c have len: "length tasks_data = 6"
    by (rule conjunct1)
  from c have "\<forall>i. i + 1 < length tasks_data \<longrightarrow>
      Start_Week (tasks_data ! (i + 1)) =
        Start_Week (tasks_data ! i) + Duration (tasks_data ! i)"
    by (rule conjunct2 [THEN conjunct2, THEN conjunct1])
  then have "0 + 1 < length tasks_data \<longrightarrow>
      Start_Week (tasks_data ! (0 + 1)) =
        Start_Week (tasks_data ! 0) + Duration (tasks_data ! 0)"
    by (rule spec)
  moreover have "0 + 1 < length tasks_data"
    by (simp add: len)
  ultimately have 1: "Start_Week (tasks_data ! (0 + 1)) =
        Start_Week (tasks_data ! 0) + Duration (tasks_data ! 0)"
    by (rule mp)
  from c have "\<exists>fig lay. build_figure tasks_data color_map milestones = Inr fig \<and>
      layout fig = Some lay \<and> xaxis_range lay = (1 / 2, 7) \<and>
      (\<forall>i < length tasks_data. \<exists>lo hi.
         bar_extent (data fig ! i) = Some (lo, hi) \<and>
         fst (xaxis_range lay) \<le> lo \<and> lo \<le> hi \<and> hi \<le> snd (xaxis_range lay)) \<and>
      length (annotations fig) = 5 \<and>
      (\<forall>a \<in> set (annotations fig).
         ann_ax a = ann_x a \<and> tail_x a = Pixels_From_Head (ann_x a))"
    by (rule conjunct2 [THEN conjunct2, THEN conjunct2, THEN conjunct2])
  then obtain fig lay where
    fig: "build_figure tasks_data color_map milestones = Inr fig" and
    "layout fig = Some lay" and
    lay: "xaxis_range lay = (1 / 2, 7)" and
    bars: "\<forall>i < length tasks_data. \<exists>lo hi.
         bar_extent (data fig ! i) = Some (lo, hi) \<and>
         fst (xaxis_range lay) \<le> lo \<and> lo \<le> hi \<and> hi \<le> snd (xaxis_range lay)" and
    n: "length (annotations fig) = 5" and
    arrows: "\<forall>a \<in> set (annotations fig).
         ann_ax a = ann_x a \<and> tail_x a = Pixels_From_Head (ann_x a)"
    by (elim exE conjE) (rule that)
  have five: "5 < length tasks_data"
    by (simp add: len)
  have "\<exists>lo hi.
         bar_extent (data fig ! 5) = Some (lo, hi) \<and>
         fst (xaxis_range lay) \<le> lo \<and> lo \<le> hi \<and> hi \<le> snd (xaxis_range lay)"
    by (rule bars [rule_format, OF five])
  then have b: "\<exists>lo hi. bar_extent (data fig ! 5) = Some (lo, hi) \<and> 1 / 2 \<le> lo \<and> hi \<le> 7"
    unfolding lay by auto
  have "annotations fig ! 0 \<in> set (annotations fig)"
    using n by simp
  with arrows have a: "ann_ax (annotations fig ! 0) = ann_x (annotations fig ! 0) \<and>
      tail_x (annotations fig ! 0) = Pixels_From_Head (ann_x (annotations fig ! 0))"
    by (rule bspec)
  have "\<exists>fig. build_figure tasks_data color_map milestones = Inr fig \<and>
      (\<exists>lo hi. bar_extent (data fig ! 5) = Some (lo, hi) \<and> 1 / 2 \<le> lo \<and> hi \<le> 7) \<and>
      ann_ax (annotations fig ! 0) = ann_x (annotations fig ! 0) \<and>
      tail_x (annotations fig ! 0) = Pixels_From_Head (ann_x (annotations fig ! 0))"
    by (rule exI [of _ fig], rule conjI [OF fig], rule conjI [OF b], rule a)
  with 1 show ?thesis by (rule conjI)
qed

end
